theory Spec2Isabelle
  imports Main
begin

section \<open>widgets/axes\_widget.py\<close>

text \<open>
  The names of the source are kept. A leading underscore of a Python name cannot start
  an Isabelle name, so \<^verbatim>\<open>_validate_text\<close>, \<^verbatim>\<open>_set_text_color\<close>, \<^verbatim>\<open>_train\<close> and
  \<^verbatim>\<open>_push_exception\<close> are written with the prefix \<open>u_\<close>.
\<close>

subsection \<open>Python exceptions and list indexing\<close>

datatype exc_class =
    ValueError | AttributeError | IndexError | RuntimeError
  | SystemExit | KeyboardInterrupt | GeneratorExit

text \<open>A raised Python object: its class and its message.\<close>

datatype pyexc = PyExc (exc_class_of: exc_class) (exc_msg: string)

text \<open>
  \<^verbatim>\<open>isinstance(e, Exception)\<close>: \<^verbatim>\<open>SystemExit\<close>, \<^verbatim>\<open>KeyboardInterrupt\<close> and
  \<^verbatim>\<open>GeneratorExit\<close> derive from \<^verbatim>\<open>BaseException\<close> only.
\<close>

fun is_Exception :: "pyexc \<Rightarrow> bool" where
  "is_Exception (PyExc SystemExit m) = False"
| "is_Exception (PyExc KeyboardInterrupt m) = False"
| "is_Exception (PyExc GeneratorExit m) = False"
| "is_Exception (PyExc c m) = True"

text \<open>
  \<^verbatim>\<open>xs[i]\<close> on a Python list: a negative index counts from the end, an index outside
  \<open>-len \<dots> len-1\<close> raises \<^verbatim>\<open>IndexError\<close>.
\<close>

definition py_getitem :: "'a list \<Rightarrow> int \<Rightarrow> pyexc + 'a" where
  "py_getitem xs i =
     (if 0 \<le> i \<and> i < int (length xs) then Inr (xs ! nat i)
      else if i < 0 \<and> - int (length xs) \<le> i then Inr (xs ! nat (int (length xs) + i))
      else Inl (PyExc IndexError ''list index out of range''))"

subsection \<open>Highlight and LettersValidator\<close>


text \<open>The three states of \<^verbatim>\<open>QtGui.QValidator\<close>.\<close>

datatype QValidator_State = Invalid | Intermediate | Acceptable

text \<open>
  \<^verbatim>\<open>LettersValidator.validate(value, pos)\<close>; \<open>options\<close> is the field \<^verbatim>\<open>_options\<close>
  (the widget passes the string \<^verbatim>\<open>REF_AXES\<close>), and \<^verbatim>\<open>value[-1] in options\<close> for the
  one-character string \<^verbatim>\<open>value[-1]\<close> is membership of that character. Both branches of
  the source fall through to the final \<^verbatim>\<open>return Invalid\<close>.
\<close>

definition validate :: "string \<Rightarrow> string \<Rightarrow> int \<Rightarrow> QValidator_State \<times> string \<times> int" where
  "validate options v pos =
     (if length v > 0 then
        (if last v \<in> set options then (Acceptable, v, pos) else (Invalid, v, pos))
      else
        (if v = '''' then (Intermediate, v, pos) else (Invalid, v, pos)))"

subsection \<open>AxesWidget\<close>

text \<open>
  The fields of the widget that the methods below read or write; \<open>text_field\<close> is the
  content of the \<^verbatim>\<open>QLineEdit\<close> (what \<^verbatim>\<open>get_axes\<close> returns) and \<open>style_sheet\<close> the argument of the
  last \<^verbatim>\<open>setStyleSheet\<close> call on it.
\<close>

record AxesWidget =
  n_axes :: int
  is_3D :: bool
  is_text_valid :: bool
  text_field :: string
  style_sheet :: string






definition get_default_text :: "AxesWidget \<Rightarrow> pyexc + string" where
  "get_default_text w =
     (let defaults =
        (if is_3D w then [''YX'', ''ZYX'', ''SZYX'', ''STZYX'', ''STCZYX'']
         else [''YX'', ''SYX'', ''STYX'', ''STCYX'', ''STC?YX''])
      in py_getitem defaults (n_axes w - 2))"

text \<open>The tables of \<^verbatim>\<open>get_default_text\<close>, named for the statements below.\<close>

definition defaults_table :: "bool \<Rightarrow> string list" where
  "defaults_table b =
     (if b then [''YX'', ''ZYX'', ''SZYX'', ''STZYX'', ''STCZYX'']
      else [''YX'', ''SYX'', ''STYX'', ''STCYX'', ''STC?YX''])"

text \<open>The assertion of the constructor: \<^verbatim>\<open>assert 0 < n_axes <= 6\<close>.\<close>

definition init_assertion :: "int \<Rightarrow> bool" where
  "init_assertion n = (0 < n \<and> n \<le> 6)"

section \<open>careamics\_utils/training\_worker.py\<close>

subsection \<open>Signals and updates\<close>

text \<open>
  \<^verbatim>\<open>TrainUpdateType\<close> and \<^verbatim>\<open>TrainingState\<close> are enums of \<^verbatim>\<open>careamics_napari.signals\<close>.
  The members that the worker names are listed; the last constructor of each stands for
  whatever other members the enum has.
\<close>

datatype TrainUpdateType =
    CAREAMIST | EXCEPTION | STATE | MAX_EPOCH | MAX_BATCH | EPOCH | BATCH
  | OtherUpdateType nat

datatype TrainingState = DONE | STOPPED | OtherTrainingState nat

text \<open>The second field of a \<^verbatim>\<open>TrainUpdate\<close> is untyped in Python.\<close>

datatype 'k update_value =
    CareamistValue 'k
  | StateValue TrainingState
  | ExceptionValue pyexc
  | IntValue int

datatype 'k TrainUpdate = TrainUpdate (update_type: TrainUpdateType) (update_value: "'k update_value")

datatype SupportedAlgorithm = N2V | CARE | N2N

text \<open>
  What a layer field of the configuration signal may hold: \<^verbatim>\<open>None\<close>, a napari layer
  with its \<^verbatim>\<open>data\<close>, or a string (the worker compares \<^verbatim>\<open>layer_val\<close> with \<^verbatim>\<open>""\<close>).
\<close>

datatype 'd layer_field = PyNone | PyStr string | Layer 'd

text \<open>
  The attribute access \<^verbatim>\<open>.data\<close>; the messages of the \<^verbatim>\<open>AttributeError\<close> are written
  without Python's quotation marks.
\<close>

fun getattr_data :: "'d layer_field \<Rightarrow> pyexc + 'd" where
  "getattr_data (Layer d) = Inr d"
| "getattr_data PyNone =
     Inl (PyExc AttributeError ''NoneType object has no attribute data'')"
| "getattr_data (PyStr s) =
     Inl (PyExc AttributeError ''str object has no attribute data'')"

record 'd TrainConfigurationSignal =
  load_from_disk :: bool
  algorithm :: SupportedAlgorithm
  path_train :: string
  path_val :: string
  path_train_target :: string
  path_val_target :: string
  layer_train :: "'d layer_field"
  layer_val :: "'d layer_field"
  layer_train_target :: "'d layer_field"
  layer_val_target :: "'d layer_field"

subsection \<open>The CAREamist and its configuration\<close>

text \<open>
  Of the library's objects the worker touches \<^verbatim>\<open>careamist.cfg.training_config.num_epochs\<close>
  only. Each level is an extensible record: whatever else the library keeps there is
  the extension part, of any type.
\<close>

record training_config =
  num_epochs :: int

record 't configuration =
  training_config :: "'t training_config_scheme"

record ('t, 'c) CAREamist =
  cfg :: "('t, 'c) configuration_scheme"

text \<open>A data source handed to \<^verbatim>\<open>careamist.train\<close>: a path string or a layer's data.\<close>

datatype 'd source = PathSource string | ArraySource 'd

record 'd train_args =
  train_source :: "'d source"
  val_source :: "'d source option"
  train_target :: "'d source option"
  val_target :: "'d source option"

text \<open>
  The collaborators that are not in the sources at hand, as parameters:
  \<^verbatim>\<open>create_configuration\<close>, the constructor
  \<^verbatim>\<open>CAREamist(source=config, callbacks=[UpdaterCallBack(update_queue)])\<close>
  and \<^verbatim>\<open>careamist.train\<close>. A call of \<^verbatim>\<open>train\<close> gives the updates that the callback puts
  on the queue while it runs, and \<open>None\<close> when it returns or \<open>Some e\<close> when it raises \<open>e\<close>.

  The type of a layer's \<^verbatim>\<open>data\<close> is not in the sources either (for an image layer it is
  a numpy array), and it decides what \<^verbatim>\<open>if train_data == val_data\<close> does: \<open>eq_truth\<close>
  gives the truth value that the \<^verbatim>\<open>if\<close> of line 146 finds for the training data and
  the validation data (\<open>None\<close> for Python's \<^verbatim>\<open>None\<close>), or the exception that the
  comparison or its truth value raises.
\<close>

record ('d, 't, 'c, 's) careamics =
  create_configuration :: "'d TrainConfigurationSignal \<Rightarrow> ('t, 'c) configuration_scheme"
  new_CAREamist :: "('t, 'c) configuration_scheme \<Rightarrow> ('t, 'c, 's) CAREamist_scheme"
  train :: "('t, 'c, 's) CAREamist_scheme \<Rightarrow> 'd train_args
              \<Rightarrow> ('t, 'c, 's) CAREamist_scheme TrainUpdate list \<times> pyexc option"
  eq_truth :: "'d \<Rightarrow> 'd option \<Rightarrow> pyexc + bool"

subsection \<open>The training thread\<close>

text \<open>
  A run of \<^verbatim>\<open>_train\<close>: the updates it put on the queue, in order; the messages given to
  \<^verbatim>\<open>ntf.show_error\<close>; the calls of \<^verbatim>\<open>careamist.train\<close> with the CAREamist as it was at
  the call; and \<open>None\<close> when \<^verbatim>\<open>_train\<close> returned or \<open>Some e\<close> when \<open>e\<close> left it.
\<close>

record ('k, 'd) train_run =
  queue_puts :: "'k TrainUpdate list"
  errors_shown :: "string list"
  train_calls :: "('k \<times> 'd train_args) list"
  raised :: "pyexc option"

definition u_push_exception :: "'k TrainUpdate list \<Rightarrow> pyexc \<Rightarrow> 'k TrainUpdate list" where
  "u_push_exception queue e = queue @ [TrainUpdate EXCEPTION (ExceptionValue e)]"

text \<open>
  The outcome of the data formatting (lines 90 to 167): the function is left (by
  \<^verbatim>\<open>return\<close> or by an exception), or the four arguments of \<^verbatim>\<open>train\<close> are ready.
\<close>

datatype ('k, 'd) formatted =
    Left "'k TrainUpdate list" "pyexc option"
  | Ready "'k TrainUpdate list" "'d train_args"

text \<open>The branch \<^verbatim>\<open>if config_signal.load_from_disk\<close>.\<close>

definition format_from_disk ::
  "'d TrainConfigurationSignal \<Rightarrow> 'k TrainUpdate list \<Rightarrow> ('k, 'd) formatted" where
  "format_from_disk config_signal update_queue =
     (if path_train config_signal = '''' then
        Left (u_push_exception update_queue
               (PyExc ValueError ''Training data path is empty.'')) None
      else
        let train_data = path_train config_signal;
            val_data = (if path_val config_signal \<noteq> ''''
                        then Some (path_val config_signal) else None);
            val_data = (if Some train_data = val_data then None else val_data)
        in if algorithm config_signal \<noteq> N2V then
             (if path_train_target config_signal = '''' then
                Left (u_push_exception update_queue
                       (PyExc ValueError ''Training target data path is empty.'')) None
              else
                let train_data_target = Some (path_train_target config_signal);
                    val_data_target =
                      (if val_data \<noteq> None then
                         (if path_val_target config_signal \<noteq> ''''
                          then Some (path_val_target config_signal) else None)
                       else None)
                in Ready update_queue
                     \<lparr>train_source = PathSource train_data,
                      val_source = map_option PathSource val_data,
                      train_target = map_option PathSource train_data_target,
                      val_target = map_option PathSource val_data_target\<rparr>)
           else
             Ready update_queue
               \<lparr>train_source = PathSource train_data,
                val_source = map_option PathSource val_data,
                train_target = None,
                val_target = None\<rparr>)"

text \<open>
  The \<^verbatim>\<open>else\<close> branch. The first check pushes its \<^verbatim>\<open>ValueError\<close> and, having no
  \<^verbatim>\<open>return\<close>, goes on to \<^verbatim>\<open>config_signal.layer_train.data\<close>. The test
  \<^verbatim>\<open>if train_data == val_data\<close> of line 146 is \<open>eq_truth\<close>; an exception it raises
  leaves \<^verbatim>\<open>_train\<close>, as line 146 is outside the \<^verbatim>\<open>try\<close>.
\<close>

definition format_from_layers ::
  "('d, 't, 'c, 's) careamics \<Rightarrow> 'd TrainConfigurationSignal \<Rightarrow> 'k TrainUpdate list
     \<Rightarrow> ('k, 'd) formatted" where
  "format_from_layers lib config_signal update_queue0 =
     (let update_queue =
            (if layer_train config_signal = PyNone
             then u_push_exception update_queue0
                    (PyExc ValueError ''Training data path is empty.'')
             else update_queue0)
      in case getattr_data (layer_train config_signal) of
           Inl e \<Rightarrow> Left update_queue (Some e)
         | Inr train_data \<Rightarrow>
      (case (if layer_val config_signal \<noteq> PyNone
             then map_sum id Some (getattr_data (layer_val config_signal))
             else Inr None) of
           Inl e \<Rightarrow> Left update_queue (Some e)
         | Inr val_data0 \<Rightarrow>
      (case eq_truth lib train_data val_data0 of
           Inl e \<Rightarrow> Left update_queue (Some e)
         | Inr equal \<Rightarrow>
      let val_data = (if equal then None else val_data0)
      in if algorithm config_signal \<noteq> N2V then
           (if layer_train_target config_signal = PyNone then
              Left (u_push_exception update_queue
                     (PyExc ValueError ''Training target data path is empty.'')) None
            else
              case getattr_data (layer_train_target config_signal) of
                Inl e \<Rightarrow> Left update_queue (Some e)
              | Inr train_data_target \<Rightarrow>
              (case (if val_data \<noteq> None then
                       (if layer_val_target config_signal \<noteq> PyNone
                        then map_sum id Some (getattr_data (layer_val_target config_signal))
                        else Inr None)
                     else Inr None) of
                 Inl e \<Rightarrow> Left update_queue (Some e)
               | Inr val_data_target \<Rightarrow>
                   Ready update_queue
                     \<lparr>train_source = ArraySource train_data,
                      val_source = map_option ArraySource val_data,
                      train_target = Some (ArraySource train_data_target),
                      val_target = map_option ArraySource val_data_target\<rparr>))
         else
           Ready update_queue
             \<lparr>train_source = ArraySource train_data,
              val_source = map_option ArraySource val_data,
              train_target = None,
              val_target = None\<rparr>)))"

text \<open>The message of line 80, its first sentence.\<close>

definition continuing_message :: string where
  "continuing_message =
     ''Continuing training is currently not supported without explicitely passing validation.''"

text \<open>
  Lines 66 to 88: the configuration, the CAREamist (created, or the given one with its
  number of epochs overwritten), and the messages shown.
\<close>

definition prepare_careamist ::
  "('d, 't, 'c, 's) careamics \<Rightarrow> 'd TrainConfigurationSignal
     \<Rightarrow> ('t, 'c, 's) CAREamist_scheme option
     \<Rightarrow> ('t, 'c, 's) CAREamist_scheme \<times> string list" where
  "prepare_careamist lib config_signal careamist0 =
     (let config = create_configuration lib config_signal
      in case careamist0 of
           None \<Rightarrow> (new_CAREamist lib config, [])
         | Some careamist \<Rightarrow>
             (careamist\<lparr>cfg := (cfg careamist)\<lparr>training_config :=
                 (training_config (cfg careamist))\<lparr>num_epochs :=
                     num_epochs (training_config config)\<rparr>\<rparr>\<rparr>,
              if layer_val config_signal = PyStr '''' \<and> path_val config_signal = ''''
              then [continuing_message] else []))"

text \<open>
  Lines 171 to 201: the call of \<^verbatim>\<open>careamist.train\<close> inside \<^verbatim>\<open>try\<close>, the handler
  \<^verbatim>\<open>except Exception as e\<close>, and the last \<^verbatim>\<open>put\<close>.
\<close>

definition try_train ::
  "('d, 't, 'c, 's) careamics \<Rightarrow> ('t, 'c, 's) CAREamist_scheme
     \<Rightarrow> ('t, 'c, 's) CAREamist_scheme TrainUpdate list \<Rightarrow> 'd train_args
     \<Rightarrow> ('t, 'c, 's) CAREamist_scheme TrainUpdate list \<times> pyexc option" where
  "try_train lib careamist update_queue args =
     (case train lib careamist args of
        (callback_puts, None) \<Rightarrow>
          (update_queue @ callback_puts @ [TrainUpdate STATE (StateValue DONE)], None)
      | (callback_puts, Some e) \<Rightarrow>
          if is_Exception e then
            (update_queue @ callback_puts
               @ [TrainUpdate EXCEPTION (ExceptionValue e)]
               @ [TrainUpdate STATE (StateValue DONE)], None)
          else (update_queue @ callback_puts, Some e))"

definition u_train ::
  "('d, 't, 'c, 's) careamics \<Rightarrow> 'd TrainConfigurationSignal
     \<Rightarrow> ('t, 'c, 's) CAREamist_scheme option
     \<Rightarrow> (('t, 'c, 's) CAREamist_scheme, 'd) train_run" where
  "u_train lib config_signal careamist0 =
     (let (careamist, shown) = prepare_careamist lib config_signal careamist0;
          update_queue = [TrainUpdate CAREAMIST (CareamistValue careamist)]
      in case (if load_from_disk config_signal
               then format_from_disk config_signal update_queue
               else format_from_layers lib config_signal update_queue) of
           Left q r \<Rightarrow>
             \<lparr>queue_puts = q, errors_shown = shown, train_calls = [], raised = r\<rparr>
         | Ready q args \<Rightarrow>
             (let (q', r) = try_train lib careamist q args
              in \<lparr>queue_puts = q', errors_shown = shown,
                  train_calls = [(careamist, args)], raised = r\<rparr>))"

subsection \<open>The queue and the generator\<close>

text \<open>
  \<^verbatim>\<open>queue.Queue(maxsize)\<close> of the standard library: \<^verbatim>\<open>put\<close> waits while
  \<^verbatim>\<open>0 < maxsize <= qsize()\<close> and then appends; \<^verbatim>\<open>get\<close> waits while the queue is empty
  and then takes the oldest item. A call that has to wait gives \<open>None\<close>.
\<close>

record 'a Queue =
  maxsize :: int
  queue :: "'a list"

definition new_Queue :: "int \<Rightarrow> 'a Queue" where
  "new_Queue m = \<lparr>maxsize = m, queue = []\<rparr>"

definition qsize :: "'a Queue \<Rightarrow> nat" where
  "qsize q = length (queue q)"

definition full :: "'a Queue \<Rightarrow> bool" where
  "full q = (0 < maxsize q \<and> maxsize q \<le> int (qsize q))"

definition Queue_put :: "'a Queue \<Rightarrow> 'a \<Rightarrow> 'a Queue option" where
  "Queue_put q item = (if full q then None else Some (q\<lparr>queue := queue q @ [item]\<rparr>))"

definition Queue_get :: "'a Queue \<Rightarrow> ('a \<times> 'a Queue) option" where
  "Queue_get q = (case queue q of [] \<Rightarrow> None | x # xs \<Rightarrow> Some (x, q\<lparr>queue := xs\<rparr>))"

text \<open>The test of lines 51 to 54 that ends the generator's loop.\<close>

definition is_last_update :: "'k TrainUpdate \<Rightarrow> bool" where
  "is_last_update update =
     ((update_type update = STATE \<and> update_value update = StateValue DONE)
      \<or> update_type update = EXCEPTION)"

text \<open>
  The loop of \<^verbatim>\<open>train_worker\<close> on the updates that \<^verbatim>\<open>get\<close> delivers, oldest first: the
  updates yielded, and whether the loop was left by \<^verbatim>\<open>break\<close> or waits in \<^verbatim>\<open>get\<close>
  once the updates are used up.
\<close>

datatype loop_end = Break | Waiting

fun train_worker_loop :: "'k TrainUpdate list \<Rightarrow> 'k TrainUpdate list \<times> loop_end" where
  "train_worker_loop [] = ([], Waiting)"
| "train_worker_loop (update # rest) =
     (if is_last_update update then ([update], Break)
      else (let (ys, e) = train_worker_loop rest in (update # ys, e)))"

text \<open>
  The two threads together. \<open>to_put\<close> holds the updates the training thread has still
  to put, \<open>yielded\<close> what the generator has yielded, \<open>broke\<close> whether it has left its
  loop. A schedule says which thread moves next; a thread that has to wait, or has
  finished, does not change the state.
\<close>

record 'k worker_state =
  update_queue :: "'k TrainUpdate Queue"
  to_put :: "'k TrainUpdate list"
  yielded :: "'k TrainUpdate list"
  broke :: bool

datatype thread = Training | Generator

definition train_worker_start :: "'k TrainUpdate list \<Rightarrow> 'k worker_state" where
  "train_worker_start updates =
     \<lparr>update_queue = new_Queue 10, to_put = updates, yielded = [], broke = False\<rparr>"

fun thread_step :: "'k worker_state \<Rightarrow> thread \<Rightarrow> 'k worker_state" where
  "thread_step s Training =
     (case to_put s of
        [] \<Rightarrow> s
      | update # rest \<Rightarrow>
          (case Queue_put (update_queue s) update of
             None \<Rightarrow> s
           | Some q \<Rightarrow> s\<lparr>update_queue := q, to_put := rest\<rparr>))"
| "thread_step s Generator =
     (if broke s then s
      else case Queue_get (update_queue s) of
             None \<Rightarrow> s
           | Some (update, q) \<Rightarrow>
               s\<lparr>update_queue := q, yielded := yielded s @ [update],
                 broke := is_last_update update\<rparr>)"

definition run_schedule :: "'k worker_state \<Rightarrow> thread list \<Rightarrow> 'k worker_state" where
  "run_schedule s schedule = foldl thread_step s schedule"

text \<open>The \<^verbatim>\<open>if\<close> of line 94 that chooses between the two branches.\<close>

definition format_data ::
  "('d, 't, 'c, 's) careamics \<Rightarrow> 'd TrainConfigurationSignal \<Rightarrow> 'k TrainUpdate list
     \<Rightarrow> ('k, 'd) formatted" where
  "format_data lib cs q =
     (if load_from_disk cs then format_from_disk cs q else format_from_layers lib cs q)"

text \<open>
  What holds of the two threads after every step: no update is lost or reordered on its
  way from the training thread through the queue to the generator, only the newest
  yielded update can be one that ends the loop, and the loop has been left exactly when
  it is.
\<close>

definition worker_inv :: "'k TrainUpdate list \<Rightarrow> 'k worker_state \<Rightarrow> bool" where
  "worker_inv us s =
     (yielded s @ queue (update_queue s) @ to_put s = us
      \<and> list_all (\<lambda>u. \<not> is_last_update u) (butlast (yielded s))
      \<and> broke s = (yielded s \<noteq> [] \<and> is_last_update (last (yielded s))))"

subsection \<open>Numpy arrays at line 146\<close>

text \<open>
  A numpy array as far as \<^verbatim>\<open>if train_data == val_data\<close> needs it: one-dimensional, with
  integer entries. \<^verbatim>\<open>a == None\<close> is an array of \<^verbatim>\<open>False\<close> of the shape of \<open>a\<close>;
  \<^verbatim>\<open>a == b\<close> compares entry by entry, an array of one entry being broadcast, and raises
  \<^verbatim>\<open>ValueError\<close> for shapes that do not fit (NumPy from 1.25 on). The truth value of the
  resulting array is its entry when it has exactly one; with more than one entry it is
  ambiguous and \<^verbatim>\<open>ValueError\<close> is raised (with none as well, from NumPy 2.2 on).
\<close>

definition ndarray_eq :: "int list \<Rightarrow> int list option \<Rightarrow> pyexc + bool list" where
  "ndarray_eq a other =
     (case other of
        None \<Rightarrow> Inr (map (\<lambda>x. False) a)
      | Some b \<Rightarrow>
          if length a = length b then Inr (map (\<lambda>(x, y). x = y) (zip a b))
          else if length b = 1 then Inr (map (\<lambda>x. x = hd b) a)
          else if length a = 1 then Inr (map (\<lambda>y. hd a = y) b)
          else Inl (PyExc ValueError ''operands could not be broadcast together''))"

definition ndarray_bool :: "bool list \<Rightarrow> pyexc + bool" where
  "ndarray_bool bs =
     (case bs of
        [b] \<Rightarrow> Inr b
      | [] \<Rightarrow> Inl (PyExc ValueError ''The truth value of an empty array is ambiguous.'')
      | _ \<Rightarrow> Inl (PyExc ValueError
                 ''The truth value of an array with more than one element is ambiguous.''))"

definition numpy_eq_truth :: "int list \<Rightarrow> int list option \<Rightarrow> pyexc + bool" where
  "numpy_eq_truth a other =
     (case ndarray_eq a other of Inl e \<Rightarrow> Inl e | Inr bs \<Rightarrow> ndarray_bool bs)"

subsection \<open>Example runs\<close>

text \<open>
  A library whose configuration asks for 20 epochs and whose \<^verbatim>\<open>train\<close> reports one
  epoch and then ends as \<open>r\<close> says, with layer data whose \<^verbatim>\<open>==\<close> gives a plain
  \<^verbatim>\<open>bool\<close> (as Python's own comparison of objects does); the same library with numpy
  arrays as layer data; a CAREamist trained before with 5 epochs; and signals that
  select the same data for training and validation, or no validation.
\<close>

definition example_careamics :: "pyexc option \<Rightarrow> ('d, nat, string, bool) careamics" where
  "example_careamics r =
     \<lparr>create_configuration =
        (\<lambda>cs. \<lparr>training_config = \<lparr>num_epochs = 20, \<dots> = 64\<rparr>, \<dots> = ''n2v''\<rparr>),
      new_CAREamist = (\<lambda>c. \<lparr>cfg = c, \<dots> = False\<rparr>),
      train = (\<lambda>k a. ([TrainUpdate EPOCH (IntValue 1)], r)),
      eq_truth = (\<lambda>a other. Inr (Some a = other))\<rparr>"

definition numpy_careamics :: "pyexc option \<Rightarrow> (int list, nat, string, bool) careamics" where
  "numpy_careamics r = (example_careamics r)\<lparr>eq_truth := numpy_eq_truth\<rparr>"

text \<open>An image of four pixels, with no validation layer and with itself as validation.\<close>

definition image_signal :: "int list TrainConfigurationSignal" where
  "image_signal =
     \<lparr>load_from_disk = False, algorithm = N2V,
      path_train = '''', path_val = '''',
      path_train_target = '''', path_val_target = '''',
      layer_train = Layer [3, 1, 4, 1], layer_val = PyNone,
      layer_train_target = PyNone, layer_val_target = PyNone\<rparr>"

definition image_same_signal :: "int list TrainConfigurationSignal" where
  "image_same_signal = image_signal\<lparr>layer_val := Layer [3, 1, 4, 1]\<rparr>"

text \<open>An image of a single pixel.\<close>

definition pixel_signal :: "int list TrainConfigurationSignal" where
  "pixel_signal = image_signal\<lparr>layer_train := Layer [7], layer_val := Layer [7]\<rparr>"

text \<open>What the training thread puts on the queue in a run that ends with an exception.\<close>

definition example_updates :: "unit TrainUpdate list" where
  "example_updates =
     [TrainUpdate CAREAMIST (CareamistValue ()),
      TrainUpdate EPOCH (IntValue 1),
      TrainUpdate EXCEPTION (ExceptionValue (PyExc RuntimeError ''out of memory'')),
      TrainUpdate STATE (StateValue DONE)]"

definition example_careamist :: "(nat, string, bool) CAREamist_scheme" where
  "example_careamist =
     \<lparr>cfg = \<lparr>training_config = \<lparr>num_epochs = 5, \<dots> = 16\<rparr>, \<dots> = ''care''\<rparr>, \<dots> = True\<rparr>"

definition example_signal :: "nat TrainConfigurationSignal" where
  "example_signal =
     \<lparr>load_from_disk = True, algorithm = N2V,
      path_train = ''train.tif'', path_val = ''train.tif'',
      path_train_target = '''', path_val_target = '''',
      layer_train = Layer 7, layer_val = Layer 7,
      layer_train_target = PyNone, layer_val_target = PyNone\<rparr>"

definition example_missing_layer_signal :: "nat TrainConfigurationSignal" where
  "example_missing_layer_signal =
     example_signal\<lparr>load_from_disk := False, layer_train := PyNone\<rparr>"

definition eleven_updates :: "unit TrainUpdate list" where
  "eleven_updates =
     map (\<lambda>i. TrainUpdate BATCH (IntValue i)) [0, 1, 2, 3, 4, 5, 6, 7, 8, 9, 10]"

definition eleven_puts :: "thread list" where
  "eleven_puts =
     [Training, Training, Training, Training, Training, Training,
      Training, Training, Training, Training, Training]"

section \<open>Properties of the axes widget\<close>

text \<open>
  C8. For every string \<open>v\<close> and position \<open>pos\<close>, \<^verbatim>\<open>LettersValidator.validate\<close>
  returns \<open>Acceptable\<close> exactly when \<open>v\<close> is not empty and its last character is in the
  options, \<open>Intermediate\<close> exactly when \<open>v\<close> is empty, and \<open>Invalid\<close> in every other
  case; the string and the position come back as they were given.
\<close>

theorem validate_classification:
  "(fst (validate options v pos) = Acceptable) = (v \<noteq> [] \<and> last v \<in> set options)
   \<and> (fst (validate options v pos) = Intermediate) = (v = [])
   \<and> (fst (validate options v pos) = Invalid) = (v \<noteq> [] \<and> last v \<notin> set options)
   \<and> snd (validate options v pos) = (v, pos)"
  by (simp add: validate_def)

lemma get_default_text_table:
  "get_default_text w = py_getitem (defaults_table (is_3D w)) (n_axes w - 2)"
  by (simp add: get_default_text_def defaults_table_def)

text \<open>
  C10. For every \<open>n_axes\<close> that the constructor's assertion accepts and either value of
  \<open>is_3D\<close>, \<^verbatim>\<open>get_default_text\<close> raises no \<^verbatim>\<open>IndexError\<close> and returns an element of
  its table of five defaults (for \<open>n_axes = 1\<close> the index is \<open>-1\<close>, the last element);
  from \<open>n_axes = 2\<close> on the default has exactly \<open>n_axes\<close> characters.
\<close>

theorem get_default_text_in_table:
  assumes "init_assertion (n_axes w)"
  shows "length (defaults_table (is_3D w)) = 5
     \<and> (\<exists>s. get_default_text w = Inr s \<and> s \<in> set (defaults_table (is_3D w))
            \<and> (2 \<le> n_axes w \<longrightarrow> int (length s) = n_axes w))"
proof -
  let ?n = "n_axes w"
  from assms have "?n = 1 \<or> ?n = 2 \<or> ?n = 3 \<or> ?n = 4 \<or> ?n = 5 \<or> ?n = 6"
    unfolding init_assertion_def by arith
  then show ?thesis
    by (elim disjE) (simp_all add: get_default_text_table py_getitem_def defaults_table_def)
qed

theorem get_default_text_in_table_witness:
  "init_assertion 1 \<and> init_assertion 4 \<and> (2::int) \<le> 4
   \<and> get_default_text \<lparr>n_axes = 1, is_3D = False, is_text_valid = True,
        text_field = [], style_sheet = []\<rparr> = Inr ''STC?YX''
   \<and> get_default_text \<lparr>n_axes = 4, is_3D = True, is_text_valid = True,
        text_field = [], style_sheet = []\<rparr> = Inr ''SZYX''"
  using get_default_text_in_table [of "\<lparr>n_axes = 1, is_3D = False, is_text_valid = True,
        text_field = [], style_sheet = []\<rparr>"]
    get_default_text_in_table [of "\<lparr>n_axes = 4, is_3D = True, is_text_valid = True,
        text_field = [], style_sheet = []\<rparr>"]
  by (simp add: init_assertion_def get_default_text_def py_getitem_def)


section \<open>Properties of the generator and the queue\<close>

lemma train_worker_loop_yields:
  "fst (train_worker_loop us) =
     takeWhile (\<lambda>u. \<not> is_last_update u) us @ take 1 (dropWhile (\<lambda>u. \<not> is_last_update u) us)"
  by (induction us) (auto split: prod.splits)

lemma train_worker_loop_end:
  "snd (train_worker_loop us) = (if list_ex is_last_update us then Break else Waiting)"
  by (induction us) (auto split: prod.splits)

lemma train_worker_loop_append_open:
  "list_all (\<lambda>u. \<not> is_last_update u) ys \<Longrightarrow>
   train_worker_loop (ys @ rest) = (ys @ fst (train_worker_loop rest), snd (train_worker_loop rest))"
  by (induction ys) (auto split: prod.splits)

lemma train_worker_loop_append_closed:
  "list_all (\<lambda>u. \<not> is_last_update u) ys \<Longrightarrow> is_last_update u \<Longrightarrow>
   train_worker_loop (ys @ u # rest) = (ys @ [u], Break)"
  by (simp add: train_worker_loop_append_open)

lemma worker_inv_start: "worker_inv us (train_worker_start us)"
  by (simp add: worker_inv_def train_worker_start_def new_Queue_def)

lemma open_yielded:
  assumes "worker_inv us s" and "\<not> broke s"
  shows "list_all (\<lambda>u. \<not> is_last_update u) (yielded s)"
  using assms unfolding worker_inv_def
  by (cases "yielded s" rule: rev_cases) (auto simp: butlast_append)

lemma worker_inv_step:
  assumes "worker_inv us s"
  shows "worker_inv us (thread_step s t)"
proof (cases t)
  case Training
  with assms show ?thesis
    by (auto simp: worker_inv_def Queue_put_def split: list.splits if_splits)
next
  case Generator
  show ?thesis
  proof (cases "broke s \<or> queue (update_queue s) = []")
    case True
    with assms Generator show ?thesis
      by (auto simp: Queue_get_def split: list.splits)
  next
    case False
    then obtain x xs where q: "queue (update_queue s) = x # xs" and nb: "\<not> broke s"
      by (cases "queue (update_queue s)") auto
    from assms q nb open_yielded [OF assms nb] Generator show ?thesis
      by (simp add: worker_inv_def Queue_get_def butlast_append)
  qed
qed

lemma worker_inv_run:
  "worker_inv us s \<Longrightarrow> worker_inv us (run_schedule s sched)"
  unfolding run_schedule_def
  by (induction sched arbitrary: s) (simp_all add: worker_inv_step)

lemma worker_inv_yielded:
  assumes "worker_inv us s"
  shows "(\<exists>rest. fst (train_worker_loop us) = yielded s @ rest)
     \<and> broke s = (yielded s = fst (train_worker_loop us) \<and> snd (train_worker_loop us) = Break)"
proof (cases "broke s")
  case True
  with assms obtain ys u where y: "yielded s = ys @ [u]" and l: "is_last_update u"
    and o: "list_all (\<lambda>u. \<not> is_last_update u) ys"
    unfolding worker_inv_def
    by (cases "yielded s" rule: rev_cases) (auto simp: butlast_append)
  from assms y have "us = ys @ u # (queue (update_queue s) @ to_put s)"
    by (simp add: worker_inv_def)
  with train_worker_loop_append_closed [OF o l] have "train_worker_loop us = (ys @ [u], Break)"
    by simp
  with True y show ?thesis by simp
next
  case False
  let ?later = "queue (update_queue s) @ to_put s"
  from assms have us: "us = yielded s @ ?later"
    by (simp add: worker_inv_def)
  have l: "train_worker_loop us =
      (yielded s @ fst (train_worker_loop ?later), snd (train_worker_loop ?later))"
    using train_worker_loop_append_open [OF open_yielded [OF assms False]] us by metis
  have "\<not> (yielded s = fst (train_worker_loop us) \<and> snd (train_worker_loop us) = Break)"
  proof
    assume a: "yielded s = fst (train_worker_loop us) \<and> snd (train_worker_loop us) = Break"
    from l have lf: "fst (train_worker_loop us) = yielded s @ fst (train_worker_loop ?later)"
      and ls: "snd (train_worker_loop us) = snd (train_worker_loop ?later)"
      by simp_all
    from a lf have "fst (train_worker_loop ?later) = []"
      by simp
    moreover from a ls have "snd (train_worker_loop ?later) = Break"
      by simp
    ultimately show False
      by (cases ?later) (auto split: prod.splits if_splits)
  qed
  with False l show ?thesis by simp
qed

lemma thread_step_maxsize:
  "maxsize (update_queue (thread_step s t)) = maxsize (update_queue s)"
  by (cases t) (auto simp: Queue_put_def Queue_get_def split: list.splits option.splits if_splits)

lemma thread_step_bound:
  assumes "0 < maxsize (update_queue s)"
    and "int (qsize (update_queue s)) \<le> maxsize (update_queue s)"
  shows "int (qsize (update_queue (thread_step s t))) \<le> maxsize (update_queue s)"
  using assms
  by (cases t)
    (auto simp: Queue_put_def Queue_get_def full_def qsize_def
      split: list.splits option.splits if_splits)

lemma run_schedule_bound:
  assumes "0 < maxsize (update_queue s)"
    and "int (qsize (update_queue s)) \<le> maxsize (update_queue s)"
  shows "maxsize (update_queue (run_schedule s sched)) = maxsize (update_queue s)
     \<and> int (qsize (update_queue (run_schedule s sched))) \<le> maxsize (update_queue s)"
  using assms unfolding run_schedule_def
proof (induction sched arbitrary: s)
  case Nil
  then show ?case by simp
next
  case (Cons t sched)
  have m: "maxsize (update_queue (thread_step s t)) = maxsize (update_queue s)"
    by (rule thread_step_maxsize)
  have b: "int (qsize (update_queue (thread_step s t))) \<le> maxsize (update_queue (thread_step s t))"
    using thread_step_bound [OF Cons.prems] m by simp
  from Cons.IH [of "thread_step s t"] Cons.prems m b show ?case by simp
qed

lemma run_schedule_start_maxsize:
  "maxsize (update_queue (run_schedule (train_worker_start us) sched)) = 10"
proof -
  let ?s0 = "train_worker_start us"
  have "0 < maxsize (update_queue ?s0)"
    "int (qsize (update_queue ?s0)) \<le> maxsize (update_queue ?s0)"
    "maxsize (update_queue ?s0) = 10"
    by (simp_all add: train_worker_start_def new_Queue_def qsize_def)
  with run_schedule_bound [of ?s0 sched] show ?thesis by simp
qed

text \<open>Once the generator has left its loop it yields nothing more.\<close>

lemma broke_stays:
  "broke s \<Longrightarrow> broke (thread_step s t) \<and> yielded (thread_step s t) = yielded s"
  by (cases t) (auto split: list.splits option.splits)

lemma broke_stays_run:
  "broke s \<Longrightarrow> broke (run_schedule s sched) \<and> yielded (run_schedule s sched) = yielded s"
  unfolding run_schedule_def
  by (induction sched arbitrary: s) (simp_all add: broke_stays)

text \<open>
  Progress: when the two threads take turns, each turn moves one update out of the
  queue until the generator leaves its loop or nothing is left.
\<close>

lemma worker_inv_done:
  assumes "worker_inv us s" and "queue (update_queue s) = []" and "to_put s = []"
  shows "yielded s = fst (train_worker_loop us)"
proof (cases "broke s")
  case True
  with worker_inv_yielded [OF assms(1)] show ?thesis by simp
next
  case False
  from assms have "us = yielded s @ []" by (simp add: worker_inv_def)
  with train_worker_loop_append_open [OF open_yielded [OF assms(1) False], of "[]"]
  show ?thesis by simp
qed

lemma turn_idle:
  assumes "queue (update_queue s) = []" and "to_put s = []"
  shows "thread_step (thread_step s Training) Generator = s"
  using assms by (simp add: Queue_get_def)

lemma turn_moves_one:
  assumes "\<not> broke s" and "maxsize (update_queue s) = 10"
    and "queue (update_queue s) \<noteq> [] \<or> to_put s \<noteq> []"
  shows "Suc (length (queue (update_queue (thread_step (thread_step s Training) Generator)))
            + length (to_put (thread_step (thread_step s Training) Generator)))
         = length (queue (update_queue s)) + length (to_put s)"
proof (cases "to_put s")
  case Nil
  with assms obtain x xs where "queue (update_queue s) = x # xs"
    by (cases "queue (update_queue s)") auto
  with Nil assms show ?thesis by (simp add: Queue_get_def)
next
  case (Cons u rest)
  show ?thesis
  proof (cases "full (update_queue s)")
    case True
    with assms obtain x xs where "queue (update_queue s) = x # xs"
      by (cases "queue (update_queue s)") (auto simp: full_def qsize_def)
    with Cons True assms show ?thesis by (simp add: Queue_put_def Queue_get_def)
  next
    case False
    with Cons assms show ?thesis
      by (cases "queue (update_queue s)") (simp_all add: Queue_put_def Queue_get_def)
  qed
qed

lemma turns_finish:
  assumes "worker_inv us s" and "maxsize (update_queue s) = 10"
    and "length (queue (update_queue s)) + length (to_put s) \<le> n"
  shows "yielded (run_schedule s (concat (replicate n [Training, Generator])))
           = fst (train_worker_loop us)"
  using assms
proof (induction n arbitrary: s)
  case 0
  then show ?case by (simp add: run_schedule_def worker_inv_done)
next
  case (Suc n)
  let ?s2 = "thread_step (thread_step s Training) Generator"
  have run: "run_schedule s (concat (replicate (Suc n) [Training, Generator]))
           = run_schedule ?s2 (concat (replicate n [Training, Generator]))"
    by (simp add: run_schedule_def)
  have inv2: "worker_inv us ?s2"
    by (rule worker_inv_step [OF worker_inv_step [OF Suc.prems(1)]])
  have max2: "maxsize (update_queue ?s2) = 10"
    by (simp only: thread_step_maxsize Suc.prems(2))
  show ?case
  proof (cases "broke s")
    case True
    from worker_inv_yielded [OF Suc.prems(1)] True
    have y: "yielded s = fst (train_worker_loop us)" by simp
    from broke_stays_run [OF True, of "concat (replicate (Suc n) [Training, Generator])"]
    have "yielded (run_schedule s (concat (replicate (Suc n) [Training, Generator])))
        = yielded s"
      by (rule conjunct2)
    with y show ?thesis by (simp only:)
  next
    case False
    note open_loop = False
    show ?thesis
    proof (cases "queue (update_queue s) = [] \<and> to_put s = []")
      case True
      from True turn_idle [of s] have same: "?s2 = s" by blast
      from True have "length (queue (update_queue s)) + length (to_put s) \<le> n" by simp
      from Suc.IH [OF Suc.prems(1) Suc.prems(2) this] show ?thesis unfolding run same .
    next
      case False
      then have "queue (update_queue s) \<noteq> [] \<or> to_put s \<noteq> []" by blast
      from turn_moves_one [OF open_loop Suc.prems(2) this] Suc.prems(3)
      have "length (queue (update_queue ?s2)) + length (to_put ?s2) \<le> n" by arith
      from Suc.IH [OF inv2 max2 this] show ?thesis unfolding run .
    qed
  qed
qed

lemma turns_after_any_schedule:
  "yielded (run_schedule (train_worker_start us)
      (sched @ concat (replicate (length us) [Training, Generator])))
     = fst (train_worker_loop us)"
proof -
  let ?s = "run_schedule (train_worker_start us) sched"
  have inv: "worker_inv us ?s"
    by (rule worker_inv_run [OF worker_inv_start])
  then have "length (yielded ?s @ queue (update_queue ?s) @ to_put ?s) = length us"
    by (simp add: worker_inv_def)
  then have le: "length (queue (update_queue ?s)) + length (to_put ?s) \<le> length us"
    by simp
  have "run_schedule (train_worker_start us)
          (sched @ concat (replicate (length us) [Training, Generator]))
        = run_schedule ?s (concat (replicate (length us) [Training, Generator]))"
    by (simp add: run_schedule_def)
  with turns_finish [OF inv run_schedule_start_maxsize le] show ?thesis by simp
qed

text \<open>
  C1. For every sequence \<open>us\<close> of updates placed on the queue, the generator yields
  them one at a time in the order they were put, up to and including the first update
  whose type is \<open>EXCEPTION\<close> or whose type is \<open>STATE\<close> with value \<open>DONE\<close>, and it leaves
  its loop right after yielding that one (if there is none it yields all of them and
  waits in \<^verbatim>\<open>get\<close>). With the two threads interleaved in any way, what the generator has
  yielded so far is an initial part of that, and it has left its loop exactly when it
  has yielded all of it and the last one ends the loop; and after any interleaving, once
  the two threads take turns, every one of these updates is yielded.
\<close>

theorem train_worker_fifo_until_last:
  "train_worker_loop us =
     (takeWhile (\<lambda>u. \<not> (update_type u = EXCEPTION
                          \<or> (update_type u = STATE \<and> update_value u = StateValue DONE))) us
        @ take 1 (dropWhile (\<lambda>u. \<not> (update_type u = EXCEPTION
                          \<or> (update_type u = STATE \<and> update_value u = StateValue DONE))) us),
      if list_ex (\<lambda>u. update_type u = EXCEPTION
                        \<or> (update_type u = STATE \<and> update_value u = StateValue DONE)) us
      then Break else Waiting)
   \<and> (\<exists>rest. fst (train_worker_loop us) = yielded (run_schedule (train_worker_start us) sched) @ rest)
   \<and> broke (run_schedule (train_worker_start us) sched) =
       (yielded (run_schedule (train_worker_start us) sched) = fst (train_worker_loop us)
        \<and> snd (train_worker_loop us) = Break)
   \<and> yielded (run_schedule (train_worker_start us)
         (sched @ concat (replicate (length us) [Training, Generator])))
       = fst (train_worker_loop us)"
proof -
  have p: "(\<lambda>u. \<not> (update_type u = EXCEPTION
                   \<or> (update_type u = STATE \<and> update_value u = StateValue DONE)))
           = (\<lambda>u::'a TrainUpdate. \<not> is_last_update u)"
    by (auto simp: is_last_update_def)
  have q: "(\<lambda>u. update_type u = EXCEPTION
                   \<or> (update_type u = STATE \<and> update_value u = StateValue DONE))
           = (is_last_update :: 'a TrainUpdate \<Rightarrow> bool)"
    by (auto simp: is_last_update_def)
  have "train_worker_loop us =
     (takeWhile (\<lambda>u. \<not> is_last_update u) us @ take 1 (dropWhile (\<lambda>u. \<not> is_last_update u) us),
      if list_ex is_last_update us then Break else Waiting)"
    by (simp add: prod_eq_iff train_worker_loop_yields train_worker_loop_end)
  with worker_inv_yielded [OF worker_inv_run [OF worker_inv_start, of us sched]]
    turns_after_any_schedule [of us sched]
  show ?thesis unfolding p q by simp
qed

theorem train_worker_fifo_until_last_witness:
  "train_worker_loop example_updates =
     ([TrainUpdate CAREAMIST (CareamistValue ()),
       TrainUpdate EPOCH (IntValue 1),
       TrainUpdate EXCEPTION (ExceptionValue (PyExc RuntimeError ''out of memory''))],
      Break)
   \<and> yielded (run_schedule (train_worker_start example_updates)
         ([Training, Training, Generator]
            @ concat (replicate (length example_updates) [Training, Generator])))
       = [TrainUpdate CAREAMIST (CareamistValue ()),
          TrainUpdate EPOCH (IntValue 1),
          TrainUpdate EXCEPTION (ExceptionValue (PyExc RuntimeError ''out of memory''))]"
proof -
  have l: "train_worker_loop example_updates =
     ([TrainUpdate CAREAMIST (CareamistValue ()),
       TrainUpdate EPOCH (IntValue 1),
       TrainUpdate EXCEPTION (ExceptionValue (PyExc RuntimeError ''out of memory''))],
      Break)"
    using train_worker_fifo_until_last [of example_updates "[Training, Training, Generator]"]
    by (simp add: example_updates_def)
  with train_worker_fifo_until_last [of example_updates "[Training, Training, Generator]"]
  show ?thesis by simp
qed

lemma full_put_waits:
  "maxsize q = 10 \<Longrightarrow> qsize q = 10 \<Longrightarrow> Queue_put q u = None"
  by (simp add: Queue_put_def full_def)

lemma get_then_put:
  "maxsize q = 10 \<Longrightarrow> qsize q = 10 \<Longrightarrow>
   \<exists>x q'. Queue_get q = Some (x, q') \<and> qsize q' = 9 \<and> Queue_put q' u \<noteq> None"
  by (cases "queue q") (auto simp: Queue_get_def Queue_put_def full_def qsize_def)

text \<open>
  C4. The update queue is created empty with capacity 10, and whatever the
  interleaving of the training thread and the generator it never holds more than 10
  updates: when it holds 10, a \<^verbatim>\<open>put\<close> has to wait, and it goes through once the
  generator has taken an update out.
\<close>

theorem update_queue_bounded:
  "maxsize (update_queue (train_worker_start us)) = 10
   \<and> queue (update_queue (train_worker_start us)) = []
   \<and> maxsize (update_queue (run_schedule (train_worker_start us) sched)) = 10
   \<and> qsize (update_queue (run_schedule (train_worker_start us) sched)) \<le> 10
   \<and> (qsize (update_queue (run_schedule (train_worker_start us) sched)) = 10 \<longrightarrow>
        Queue_put (update_queue (run_schedule (train_worker_start us) sched)) u = None
        \<and> (\<exists>x q'. Queue_get (update_queue (run_schedule (train_worker_start us) sched))
                     = Some (x, q')
              \<and> Queue_put q' u \<noteq> None))"
proof -
  let ?s0 = "train_worker_start us"
  have a: "0 < maxsize (update_queue ?s0)"
    "int (qsize (update_queue ?s0)) \<le> maxsize (update_queue ?s0)"
    by (simp_all add: train_worker_start_def new_Queue_def qsize_def)
  have m0: "maxsize (update_queue ?s0) = 10" "queue (update_queue ?s0) = []"
    by (simp_all add: train_worker_start_def new_Queue_def)
  from run_schedule_bound [OF a, of sched] m0
  have m: "maxsize (update_queue (run_schedule ?s0 sched)) = 10"
    and b: "qsize (update_queue (run_schedule ?s0 sched)) \<le> 10" by simp_all
  show ?thesis
    using m0 m b full_put_waits [OF m] get_then_put [OF m] by blast
qed

lemma eleven_puts_fill:
  "queue (update_queue (run_schedule (train_worker_start eleven_updates) eleven_puts))
     = take 10 eleven_updates"
  by (simp add: run_schedule_def train_worker_start_def new_Queue_def eleven_updates_def
      eleven_puts_def Queue_put_def full_def qsize_def)

theorem update_queue_bounded_witness:
  "qsize (update_queue (run_schedule (train_worker_start eleven_updates) eleven_puts)) = 10
   \<and> Queue_put (update_queue (run_schedule (train_worker_start eleven_updates) eleven_puts))
        (TrainUpdate BATCH (IntValue 10)) = None"
proof -
  have "qsize (update_queue (run_schedule (train_worker_start eleven_updates) eleven_puts)) = 10"
    by (simp add: qsize_def eleven_puts_fill) (simp add: eleven_updates_def)
  with update_queue_bounded [of eleven_updates eleven_puts "TrainUpdate BATCH (IntValue 10)"]
  show ?thesis by simp
qed

section \<open>Properties of the training thread\<close>

lemma u_train_unfold:
  "u_train lib cs c0 =
     (case format_data lib cs
             [TrainUpdate CAREAMIST (CareamistValue (fst (prepare_careamist lib cs c0)))] of
        Left q r \<Rightarrow> \<lparr>queue_puts = q, errors_shown = snd (prepare_careamist lib cs c0),
                      train_calls = [], raised = r\<rparr>
      | Ready q args \<Rightarrow>
          \<lparr>queue_puts = fst (try_train lib (fst (prepare_careamist lib cs c0)) q args),
           errors_shown = snd (prepare_careamist lib cs c0),
           train_calls = [(fst (prepare_careamist lib cs c0), args)],
           raised = snd (try_train lib (fst (prepare_careamist lib cs c0)) q args)\<rparr>)"
  by (simp add: u_train_def format_data_def Let_def split: prod.splits formatted.splits)

lemma train_calls_Ready:
  assumes "train_calls (u_train lib cs c0) = [(k, args)]"
  shows "k = fst (prepare_careamist lib cs c0)
     \<and> (\<exists>q. format_data lib cs [TrainUpdate CAREAMIST (CareamistValue k)] = Ready q args)"
  using assms by (auto simp: u_train_unfold split: formatted.splits)

lemma train_calls_at_most_one:
  "train_calls (u_train lib cs c0) = []
   \<or> (\<exists>k args. train_calls (u_train lib cs c0) = [(k, args)])"
  by (simp add: u_train_unfold split: formatted.splits)

lemma format_from_disk_Ready:
  assumes "format_from_disk cs q0 = Ready q args"
  shows "q = q0 \<and> path_train cs \<noteq> ''''
     \<and> train_source args = PathSource (path_train cs)
     \<and> val_source args =
         (if path_val cs = '''' \<or> path_val cs = path_train cs then None
          else Some (PathSource (path_val cs)))
     \<and> (algorithm cs \<noteq> N2V \<longrightarrow> path_train_target cs \<noteq> '''')"
  using assms
  by (auto simp: format_from_disk_def Let_def split: if_splits)

text \<open>
  The layers branch gets as far as the call only when the test of line 146 gave a truth
  value.
\<close>

lemma format_from_layers_Ready:
  assumes "format_from_layers lib cs q0 = Ready q args"
  shows "q = q0
     \<and> (\<exists>d b. layer_train cs = Layer d \<and> train_source args = ArraySource d
          \<and> eq_truth lib d (case layer_val cs of Layer v \<Rightarrow> Some v | _ \<Rightarrow> None) = Inr b
          \<and> val_source args =
              (if b then None
               else (case layer_val cs of Layer v \<Rightarrow> Some (ArraySource v) | _ \<Rightarrow> None)))"
proof -
  from assms obtain d where d: "layer_train cs = Layer d"
    by (cases "layer_train cs") (auto simp: format_from_layers_def Let_def)
  from assms d have v: "layer_val cs = PyNone \<or> (\<exists>v. layer_val cs = Layer v)"
    by (cases "layer_val cs") (auto simp: format_from_layers_def Let_def)
  let ?val0 = "case layer_val cs of Layer v \<Rightarrow> Some v | _ \<Rightarrow> None"
  from assms d v obtain b where b: "eq_truth lib d ?val0 = Inr b"
    by (cases "eq_truth lib d ?val0") (auto simp: format_from_layers_def Let_def)
  from assms d v b have "q = q0 \<and> train_source args = ArraySource d
      \<and> val_source args =
          (if b then None
           else (case layer_val cs of Layer v \<Rightarrow> Some (ArraySource v) | _ \<Rightarrow> None))"
    by (auto simp: format_from_layers_def Let_def split: if_splits sum.splits)
  with d b show ?thesis by blast
qed

lemma format_data_Ready_queue:
  assumes "format_data lib cs q0 = Ready q args"
  shows "q = q0"
proof (cases "load_from_disk cs")
  case True
  with assms have "format_from_disk cs q0 = Ready q args" by (simp add: format_data_def)
  from format_from_disk_Ready [OF this] show ?thesis by simp
next
  case False
  with assms have "format_from_layers lib cs q0 = Ready q args" by (simp add: format_data_def)
  from format_from_layers_Ready [OF this] show ?thesis by simp
qed

lemma try_train_returns:
  assumes "train lib k args = (cb, None)"
  shows "try_train lib k q args = (q @ cb @ [TrainUpdate STATE (StateValue DONE)], None)"
  using assms by (simp add: try_train_def)

lemma try_train_Exception:
  assumes "train lib k args = (cb, Some e)" and "is_Exception e"
  shows "try_train lib k q args =
     (q @ cb @ [TrainUpdate EXCEPTION (ExceptionValue e), TrainUpdate STATE (StateValue DONE)],
      None)"
  using assms by (simp add: try_train_def)

text \<open>
  What \<^verbatim>\<open>except Exception\<close> does not handle (a \<^verbatim>\<open>SystemExit\<close>, say) leaves
  \<^verbatim>\<open>_train\<close>, and nothing more is put on the queue.
\<close>

lemma try_train_BaseException:
  assumes "train lib k args = (cb, Some e)" and "\<not> is_Exception e"
  shows "try_train lib k q args = (q @ cb, Some e)"
  using assms by (simp add: try_train_def)

lemma example_disk_call:
  "train_calls (u_train (example_careamics r) example_signal c0) =
     [(fst (prepare_careamist (example_careamics r) example_signal c0),
       \<lparr>train_source = PathSource ''train.tif'', val_source = None,
        train_target = None, val_target = None\<rparr>)]"
  by (simp add: u_train_def format_from_disk_def example_signal_def Let_def split: prod.splits)

lemma example_image_call:
  "train_calls (u_train (example_careamics r) image_same_signal c0) =
     [(fst (prepare_careamist (example_careamics r) image_same_signal c0),
       \<lparr>train_source = ArraySource [3, 1, 4, 1], val_source = None,
        train_target = None, val_target = None\<rparr>)]"
  by (simp add: u_train_def format_from_layers_def example_careamics_def image_signal_def
      image_same_signal_def Let_def split: prod.splits)

lemma numpy_pixel_call:
  "train_calls (u_train (numpy_careamics r) pixel_signal c0) =
     [(fst (prepare_careamist (numpy_careamics r) pixel_signal c0),
       \<lparr>train_source = ArraySource [7], val_source = None,
        train_target = None, val_target = None\<rparr>)]"
  by (simp add: u_train_def format_from_layers_def numpy_careamics_def example_careamics_def
      numpy_eq_truth_def ndarray_eq_def ndarray_bool_def image_signal_def pixel_signal_def
      Let_def split: prod.splits)

lemma example_new_careamist:
  "fst (prepare_careamist (example_careamics r) cs None) =
     \<lparr>cfg = \<lparr>training_config = \<lparr>num_epochs = 20, \<dots> = 64\<rparr>, \<dots> = ''n2v''\<rparr>, \<dots> = False\<rparr>"
  by (simp add: prepare_careamist_def example_careamics_def)

text \<open>
  C2, as amended. In every run in which \<^verbatim>\<open>careamist.train\<close> is called and raises an
  exception \<open>e\<close> that is an instance of \<^verbatim>\<open>Exception\<close> (what the handler
  \<^verbatim>\<open>except Exception as e\<close> catches), nothing leaves \<^verbatim>\<open>_train\<close>: it puts
  \<open>TrainUpdate EXCEPTION e\<close> on the queue after the updates of the training and then
  \<open>TrainUpdate STATE DONE\<close> as its last message. When the call returns, the last message
  is \<open>TrainUpdate STATE DONE\<close> as well.
\<close>

theorem train_exception_then_done:
  assumes "train_calls (u_train lib cs c0) = [(k, args)]"
    and "train lib k args = (cb, r)"
    and "r = None \<or> (\<exists>e. r = Some e \<and> is_Exception e)"
  shows "raised (u_train lib cs c0) = None
     \<and> queue_puts (u_train lib cs c0) =
         [TrainUpdate CAREAMIST (CareamistValue k)] @ cb
           @ (case r of None \<Rightarrow> [] | Some e \<Rightarrow> [TrainUpdate EXCEPTION (ExceptionValue e)])
           @ [TrainUpdate STATE (StateValue DONE)]
     \<and> last (queue_puts (u_train lib cs c0)) = TrainUpdate STATE (StateValue DONE)"
proof -
  from train_calls_Ready [OF assms(1)] obtain q
    where k: "k = fst (prepare_careamist lib cs c0)"
      and f: "format_data lib cs [TrainUpdate CAREAMIST (CareamistValue k)] = Ready q args"
    by blast
  from format_data_Ready_queue [OF f] have q: "q = [TrainUpdate CAREAMIST (CareamistValue k)]" .
  from assms(3) show ?thesis
  proof
    assume "r = None"
    with assms(2) try_train_returns [of lib k args cb q] k f q show ?thesis
      by (simp add: u_train_unfold)
  next
    assume "\<exists>e. r = Some e \<and> is_Exception e"
    then obtain e where "r = Some e" "is_Exception e" by blast
    with assms(2) try_train_Exception [of lib k args cb e q] k f q show ?thesis
      by (simp add: u_train_unfold)
  qed
qed

theorem train_exception_then_done_witness:
  "is_Exception (PyExc RuntimeError ''out of memory'')
   \<and> raised (u_train (example_careamics None) example_signal None) = None
   \<and> last (queue_puts (u_train (example_careamics None) example_signal None)) =
        TrainUpdate STATE (StateValue DONE)
   \<and> raised (u_train (example_careamics (Some (PyExc RuntimeError ''out of memory'')))
        example_signal None) = None
   \<and> queue_puts (u_train (example_careamics (Some (PyExc RuntimeError ''out of memory'')))
        example_signal None) =
       [TrainUpdate CAREAMIST (CareamistValue
          \<lparr>cfg = \<lparr>training_config = \<lparr>num_epochs = 20, \<dots> = 64\<rparr>, \<dots> = ''n2v''\<rparr>, \<dots> = False\<rparr>),
        TrainUpdate EPOCH (IntValue 1),
        TrainUpdate EXCEPTION (ExceptionValue (PyExc RuntimeError ''out of memory'')),
        TrainUpdate STATE (StateValue DONE)]"
proof -
  let ?e = "PyExc RuntimeError ''out of memory''"
  note c1 = example_disk_call [of None None]
  note c2 = example_disk_call [of "Some ?e" None]
  have t: "train (example_careamics r) k a = ([TrainUpdate EPOCH (IntValue 1)], r)" for r k a
    by (simp add: example_careamics_def)
  have e: "is_Exception ?e" by simp
  from train_exception_then_done [OF c1 t] train_exception_then_done [OF c2 t] e
  show ?thesis by (simp add: example_new_careamist)
qed

text \<open>
  C2 as it was stated fails for an exception that is not an instance of
  \<^verbatim>\<open>Exception\<close>: when \<^verbatim>\<open>careamist.train\<close> raises \<^verbatim>\<open>SystemExit\<close>, the handler does not
  catch it, it leaves \<^verbatim>\<open>_train\<close>, and neither the \<open>EXCEPTION\<close> update nor
  \<open>TrainUpdate STATE DONE\<close> is put on the queue.
\<close>

theorem train_SystemExit_propagates:
  "train_calls (u_train (example_careamics (Some (PyExc SystemExit ''''))) example_signal None) =
     [(\<lparr>cfg = \<lparr>training_config = \<lparr>num_epochs = 20, \<dots> = 64\<rparr>, \<dots> = ''n2v''\<rparr>, \<dots> = False\<rparr>,
       \<lparr>train_source = PathSource ''train.tif'', val_source = None,
        train_target = None, val_target = None\<rparr>)]
   \<and> snd (train (example_careamics (Some (PyExc SystemExit '''')))
        \<lparr>cfg = \<lparr>training_config = \<lparr>num_epochs = 20, \<dots> = 64\<rparr>, \<dots> = ''n2v''\<rparr>, \<dots> = False\<rparr>
        \<lparr>train_source = PathSource ''train.tif'', val_source = None,
         train_target = None, val_target = None\<rparr>) = Some (PyExc SystemExit '''')
   \<and> raised (u_train (example_careamics (Some (PyExc SystemExit ''''))) example_signal None) =
       Some (PyExc SystemExit '''')
   \<and> queue_puts (u_train (example_careamics (Some (PyExc SystemExit ''''))) example_signal None) =
       [TrainUpdate CAREAMIST (CareamistValue
          \<lparr>cfg = \<lparr>training_config = \<lparr>num_epochs = 20, \<dots> = 64\<rparr>, \<dots> = ''n2v''\<rparr>, \<dots> = False\<rparr>),
        TrainUpdate EPOCH (IntValue 1)]"
  by (simp add: u_train_def prepare_careamist_def format_from_disk_def try_train_def
      example_careamics_def example_signal_def Let_def)

text \<open>
  C3, at the input where it fails: \<open>load_from_disk\<close> false and \<open>layer_train\<close>
  \<^verbatim>\<open>None\<close>. The \<^verbatim>\<open>ValueError\<close> is put on the queue and \<^verbatim>\<open>careamist.train\<close> is not
  called, but \<^verbatim>\<open>_train\<close> does not return: it goes on to
  \<^verbatim>\<open>config_signal.layer_train.data\<close> and an \<^verbatim>\<open>AttributeError\<close> leaves it.
\<close>

theorem train_without_layer_train_raises:
  "u_train (example_careamics None) example_missing_layer_signal None =
     \<lparr>queue_puts =
        [TrainUpdate CAREAMIST (CareamistValue
           \<lparr>cfg = \<lparr>training_config = \<lparr>num_epochs = 20, \<dots> = 64\<rparr>, \<dots> = ''n2v''\<rparr>, \<dots> = False\<rparr>),
         TrainUpdate EXCEPTION (ExceptionValue (PyExc ValueError ''Training data path is empty.''))],
      errors_shown = [],
      train_calls = [],
      raised = Some (PyExc AttributeError ''NoneType object has no attribute data'')\<rparr>"
  by (simp add: u_train_def prepare_careamist_def format_from_layers_def u_push_exception_def
      example_careamics_def example_signal_def example_missing_layer_signal_def Let_def)

text \<open>The same for every run with that input, and the three checks that do return.\<close>

lemma missing_layer_train:
  assumes "\<not> load_from_disk cs" and "layer_train cs = PyNone"
  shows "u_train lib cs c0 =
     \<lparr>queue_puts =
        [TrainUpdate CAREAMIST (CareamistValue (fst (prepare_careamist lib cs c0))),
         TrainUpdate EXCEPTION (ExceptionValue (PyExc ValueError ''Training data path is empty.''))],
      errors_shown = snd (prepare_careamist lib cs c0),
      train_calls = [],
      raised = Some (PyExc AttributeError ''NoneType object has no attribute data'')\<rparr>"
  using assms
  by (simp add: u_train_unfold format_data_def format_from_layers_def u_push_exception_def)

lemma missing_path_train:
  assumes "load_from_disk cs" and "path_train cs = ''''"
  shows "u_train lib cs c0 =
     \<lparr>queue_puts =
        [TrainUpdate CAREAMIST (CareamistValue (fst (prepare_careamist lib cs c0))),
         TrainUpdate EXCEPTION (ExceptionValue (PyExc ValueError ''Training data path is empty.''))],
      errors_shown = snd (prepare_careamist lib cs c0),
      train_calls = [], raised = None\<rparr>"
  using assms
  by (simp add: u_train_unfold format_data_def format_from_disk_def u_push_exception_def)

lemma missing_path_train_target:
  assumes "load_from_disk cs" and "path_train cs \<noteq> ''''"
    and "algorithm cs \<noteq> N2V" and "path_train_target cs = ''''"
  shows "u_train lib cs c0 =
     \<lparr>queue_puts =
        [TrainUpdate CAREAMIST (CareamistValue (fst (prepare_careamist lib cs c0))),
         TrainUpdate EXCEPTION
           (ExceptionValue (PyExc ValueError ''Training target data path is empty.''))],
      errors_shown = snd (prepare_careamist lib cs c0),
      train_calls = [], raised = None\<rparr>"
  using assms
  by (simp add: u_train_unfold format_data_def format_from_disk_def u_push_exception_def Let_def)

lemma missing_layer_train_target:
  assumes "\<not> load_from_disk cs" and "layer_train cs = Layer d"
    and "layer_val cs = PyNone \<or> layer_val cs = Layer v"
    and "eq_truth lib d (case layer_val cs of Layer v \<Rightarrow> Some v | _ \<Rightarrow> None) = Inr b"
    and "algorithm cs \<noteq> N2V" and "layer_train_target cs = PyNone"
  shows "u_train lib cs c0 =
     \<lparr>queue_puts =
        [TrainUpdate CAREAMIST (CareamistValue (fst (prepare_careamist lib cs c0))),
         TrainUpdate EXCEPTION
           (ExceptionValue (PyExc ValueError ''Training target data path is empty.''))],
      errors_shown = snd (prepare_careamist lib cs c0),
      train_calls = [], raised = None\<rparr>"
  using assms
  by (auto simp: u_train_unfold format_data_def format_from_layers_def u_push_exception_def Let_def)

text \<open>
  C5. Whenever \<^verbatim>\<open>_train\<close> reaches the call of \<^verbatim>\<open>careamist.train\<close>: with
  \<open>load_from_disk\<close> true the argument \<open>train_source\<close> is the path string \<open>path_train\<close>
  of the signal, and with \<open>load_from_disk\<close> false it is the data of the layer
  \<open>layer_train\<close>.
\<close>

theorem train_source_is_selected_input:
  assumes "train_calls (u_train lib cs c0) = [(k, args)]"
  shows "if load_from_disk cs then train_source args = PathSource (path_train cs)
         else (\<exists>d. layer_train cs = Layer d \<and> train_source args = ArraySource d)"
proof -
  from train_calls_Ready [OF assms] obtain q
    where f: "format_data lib cs [TrainUpdate CAREAMIST (CareamistValue k)] = Ready q args"
    by blast
  show ?thesis
  proof (cases "load_from_disk cs")
    case True
    with f have "format_from_disk cs [TrainUpdate CAREAMIST (CareamistValue k)] = Ready q args"
      by (simp add: format_data_def)
    from format_from_disk_Ready [OF this] True show ?thesis by simp
  next
    case False
    with f have "format_from_layers lib cs [TrainUpdate CAREAMIST (CareamistValue k)]
        = Ready q args"
      by (simp add: format_data_def)
    from format_from_layers_Ready [OF this] obtain d
      where "layer_train cs = Layer d" and "train_source args = ArraySource d"
      by blast
    with False show ?thesis by simp
  qed
qed

text \<open>
  The call is reached from disk, from a numpy image of one pixel, and from an image of
  four pixels whose \<^verbatim>\<open>==\<close> gives a plain \<^verbatim>\<open>bool\<close>.
\<close>

theorem train_source_is_selected_input_witness:
  "train_source (snd (hd (train_calls (u_train (example_careamics None) example_signal None))))
     = PathSource ''train.tif''
   \<and> train_source (snd (hd (train_calls (u_train (numpy_careamics None) pixel_signal None))))
     = ArraySource [7]
   \<and> train_source
       (snd (hd (train_calls (u_train (example_careamics None) image_same_signal None))))
     = ArraySource [3, 1, 4, 1]"
proof -
  note c1 = example_disk_call [of None None]
  note c2 = numpy_pixel_call [of None None]
  note c3 = example_image_call [of None None]
  have "load_from_disk example_signal" "\<not> load_from_disk pixel_signal"
    "\<not> load_from_disk image_same_signal"
    "path_train example_signal = ''train.tif''" "layer_train pixel_signal = Layer [7]"
    "layer_train image_same_signal = Layer [3, 1, 4, 1]"
    by (simp_all add: example_signal_def pixel_signal_def image_signal_def image_same_signal_def)
  with train_source_is_selected_input [OF c1] train_source_is_selected_input [OF c2]
    train_source_is_selected_input [OF c3]
  show ?thesis by (simp add: c1 c2 c3)
qed

text \<open>
  What \<^verbatim>\<open>careamist.train\<close> gets as \<open>val_source\<close> when it is called. From disk it is
  \<^verbatim>\<open>None\<close> when no validation path is given or it is the training path. From layers it
  is \<^verbatim>\<open>None\<close>, or the test of line 146 found the validation data different.
\<close>

lemma val_source_when_called:
  assumes "train_calls (u_train lib cs c0) = [(k, args)]"
  shows "if load_from_disk cs
         then val_source args \<noteq> Some (train_source args)
            \<and> val_source args =
                (if path_val cs = '''' \<or> path_val cs = path_train cs then None
                 else Some (PathSource (path_val cs)))
         else (\<exists>d. layer_train cs = Layer d
                \<and> (val_source args = None
                    \<or> (\<exists>v. layer_val cs = Layer v \<and> val_source args = Some (ArraySource v)
                          \<and> eq_truth lib d (Some v) = Inr False)))"
proof -
  from train_calls_Ready [OF assms] obtain q
    where f: "format_data lib cs [TrainUpdate CAREAMIST (CareamistValue k)] = Ready q args"
    by blast
  show ?thesis
  proof (cases "load_from_disk cs")
    case True
    with f have "format_from_disk cs [TrainUpdate CAREAMIST (CareamistValue k)] = Ready q args"
      by (simp add: format_data_def)
    from format_from_disk_Ready [OF this] True show ?thesis by simp
  next
    case False
    with f have "format_from_layers lib cs [TrainUpdate CAREAMIST (CareamistValue k)]
        = Ready q args"
      by (simp add: format_data_def)
    from format_from_layers_Ready [OF this] obtain d b
      where d: "layer_train cs = Layer d"
        and e: "eq_truth lib d (case layer_val cs of Layer v \<Rightarrow> Some v | _ \<Rightarrow> None) = Inr b"
        and v: "val_source args =
              (if b then None
               else (case layer_val cs of Layer v \<Rightarrow> Some (ArraySource v) | _ \<Rightarrow> None))"
      by blast
    show ?thesis
    proof (cases "layer_val cs")
      case PyNone
      with False d v show ?thesis by simp
    next
      case (PyStr s)
      with False d v show ?thesis by simp
    next
      case (Layer w)
      with False d e v show ?thesis by (cases b) simp_all
    qed
  qed
qed

text \<open>
  On a numpy image of more than one pixel the test of line 146 has no truth value: the
  layers branch never gets to \<^verbatim>\<open>careamist.train\<close>.
\<close>

lemma ndarray_bool_ambiguous:
  assumes "1 < length bs"
  shows "ndarray_bool bs =
     Inl (PyExc ValueError ''The truth value of an array with more than one element is ambiguous.'')"
proof -
  from assms obtain x y zs where "bs = x # y # zs"
    by (cases bs; cases "tl bs") auto
  then show ?thesis by (simp add: ndarray_bool_def)
qed

lemma numpy_eq_truth_image:
  assumes "1 < length a"
  shows "\<exists>e. numpy_eq_truth a other = Inl e"
proof (cases "ndarray_eq a other")
  case (Inl e)
  then show ?thesis by (simp add: numpy_eq_truth_def)
next
  case (Inr bs)
  with assms have "1 < length bs"
    by (auto simp: ndarray_eq_def split: option.splits if_splits)
  from ndarray_bool_ambiguous [OF this] Inr show ?thesis
    by (simp add: numpy_eq_truth_def)
qed

lemma numpy_image_never_trained:
  assumes "\<not> load_from_disk cs" and "layer_train cs = Layer a" and "1 < length a"
  shows "train_calls (u_train (numpy_careamics r) cs c0) = []"
proof (rule ccontr)
  assume "train_calls (u_train (numpy_careamics r) cs c0) \<noteq> []"
  with train_calls_at_most_one [of "numpy_careamics r" cs c0] obtain k args
    where c: "train_calls (u_train (numpy_careamics r) cs c0) = [(k, args)]" by blast
  from train_calls_Ready [OF c] obtain q
    where "format_data (numpy_careamics r) cs [TrainUpdate CAREAMIST (CareamistValue k)]
        = Ready q args"
    by blast
  with assms(1) have "format_from_layers (numpy_careamics r) cs
      [TrainUpdate CAREAMIST (CareamistValue k)] = Ready q args"
    by (simp add: format_data_def)
  from format_from_layers_Ready [OF this] assms(2) obtain b
    where "numpy_eq_truth a (case layer_val cs of Layer v \<Rightarrow> Some v | _ \<Rightarrow> None) = Inr b"
    by (auto simp: numpy_careamics_def)
  with numpy_eq_truth_image [OF assms(3)] show False by (metis sum.distinct(1))
qed


text \<open>
  C9. When an existing CAREamist is given to \<^verbatim>\<open>_train\<close>, the CAREamist on which
  \<^verbatim>\<open>train\<close> is called is the given one with \<open>cfg.training_config.num_epochs\<close> set to
  the number of epochs of the new configuration: every other part of its training
  configuration, of its configuration and of the CAREamist itself is as it was.
\<close>

theorem existing_careamist_only_num_epochs:
  assumes "train_calls (u_train lib cs (Some c)) = [(k, args)]"
  shows "k = c\<lparr>cfg := (cfg c)\<lparr>training_config :=
               (training_config (cfg c))\<lparr>num_epochs :=
                  num_epochs (training_config (create_configuration lib cs))\<rparr>\<rparr>\<rparr>
     \<and> num_epochs (training_config (cfg k)) =
         num_epochs (training_config (create_configuration lib cs))
     \<and> training_config.more (training_config (cfg k)) =
         training_config.more (training_config (cfg c))
     \<and> configuration.more (cfg k) = configuration.more (cfg c)
     \<and> CAREamist.more k = CAREamist.more c"
  using train_calls_Ready [OF assms]
  by (simp add: prepare_careamist_def Let_def)

theorem existing_careamist_only_num_epochs_witness:
  "fst (hd (train_calls
      (u_train (example_careamics None) example_signal (Some example_careamist))))
     = \<lparr>cfg = \<lparr>training_config = \<lparr>num_epochs = 20, \<dots> = 16\<rparr>, \<dots> = ''care''\<rparr>, \<dots> = True\<rparr>"
proof -
  note c1 = example_disk_call [of None "Some example_careamist"]
  have "num_epochs (training_config
      (create_configuration (example_careamics None) example_signal)) = 20"
    by (simp add: example_careamics_def)
  with existing_careamist_only_num_epochs [OF c1]
  have "fst (prepare_careamist (example_careamics None) example_signal (Some example_careamist))
      = example_careamist\<lparr>cfg := (cfg example_careamist)\<lparr>training_config :=
               (training_config (cfg example_careamist))\<lparr>num_epochs := 20\<rparr>\<rparr>\<rparr>"
    by simp
  then have "fst (hd (train_calls
      (u_train (example_careamics None) example_signal (Some example_careamist))))
      = example_careamist\<lparr>cfg := (cfg example_careamist)\<lparr>training_config :=
               (training_config (cfg example_careamist))\<lparr>num_epochs := 20\<rparr>\<rparr>\<rparr>"
    by (simp add: c1)
  then show ?thesis by (simp add: example_careamist_def)
qed

end
